theory Spec2Isabelle
  imports Complex_Main "HOL-Library.Monad_Syntax" "HOL-Library.AList"
begin

section \<open>The DXF to GeoJSON converter (\<^verbatim>\<open>src/dxf_to_geojson.py\<close>)\<close>

text \<open>
  The converter walks the entities of a drawing, turns each supported entity into at most
  one GeoJSON feature and counts what it leaves out. This theory embeds
  \<^verbatim>\<open>in_utm_range\<close>, \<^verbatim>\<open>reproject\<close>, \<^verbatim>\<open>circle_to_polygon\<close>,
  \<^verbatim>\<open>arc_to_linestring\<close>, \<^verbatim>\<open>entity_color\<close>, \<^verbatim>\<open>to_wcs\<close>,
  \<^verbatim>\<open>make_feature\<close> and the loop of \<^verbatim>\<open>convert_dxf\<close>.

  Conventions of the embedding.
  \<^item> A Python float is the real number it denotes, and arithmetic on floats is exact
    arithmetic on reals (\<open>math.pi\<close> is \<open>pi\<close>, \<open>math.cos\<close> is \<open>cos\<close>). Comparisons of
    finite floats with integer constants are exact in Python too, so the plausibility test
    is modelled without loss; results that hold for floats only up to rounding are marked
    as such where they are stated. The values read from an entity are finite floats.
  \<^item> One effect of the double format changes what the loop does and is modelled: a
    product too large for a double is infinite, and \<^verbatim>\<open>math.cos\<close> and
    \<^verbatim>\<open>math.sin\<close> raise \<^verbatim>\<open>ValueError\<close> on an infinite angle. On finite
    values only the product \<open>(ea - sa) * i\<close> of \<^verbatim>\<open>arc_to_linestring\<close> can make an
    angle infinite: the angles of a circle lie between \<open>0\<close> and \<open>2 * pi\<close>, and
    \<^verbatim>\<open>math.radians\<close> scales its argument down.
  \<^item> A raised exception is the value \<open>None\<close> of an \<open>option\<close>. The source catches only
    with \<^verbatim>\<open>except Exception\<close>, so the kind of the exception never matters.
  \<^item> The two collaborators are inputs: the parsed drawing is a list of entities, and the
    coordinate transformer of \<^verbatim>\<open>pyproj\<close> is a function from \<open>(x, y)\<close> to
    \<open>(lng, lat)\<close>.
\<close>

subsection \<open>Data\<close>

type_synonym vec3 = "real \<times> real \<times> real"

type_synonym position = "real \<times> real"
  \<comment> \<open>a reprojected coordinate, the Python list \<open>[lng, lat]\<close>\<close>

type_synonym transformer = "real \<Rightarrow> real \<Rightarrow> real \<times> real"
  \<comment> \<open>\<open>transformer.transform(x, y)\<close>\<close>

type_synonym props = "(string \<times> string) list"
  \<comment> \<open>the \<open>props\<close> dictionary, in insertion order\<close>

text \<open>
  An entity as the loop sees it: the result of every attribute read the source performs.
  A field of type \<open>'a option\<close> is \<open>None\<close> when that read raises (the attribute is missing
  or malformed). \<open>dxf_X\<close> stands for \<^verbatim>\<open>entity.dxf.X\<close>; \<open>ocs\<close> is the map
  \<^verbatim>\<open>entity.ocs().to_wcs\<close>; \<open>get_points\<close> is \<^verbatim>\<open>entity.get_points(format="xy")\<close>;
  \<open>vertices\<close> lists \<^verbatim>\<open>v.dxf.location\<close> for each \<^verbatim>\<open>v\<close> of
  \<^verbatim>\<open>entity.vertices\<close>; \<open>lw_closed\<close> is \<^verbatim>\<open>entity.closed\<close>, \<open>is_closed\<close> is
  \<^verbatim>\<open>entity.is_closed\<close> and \<open>mtext_text\<close> is \<^verbatim>\<open>entity.text\<close>.
\<close>

record entity =
  dxftype :: string
  dxf_layer :: "string option"
  dxf_color :: "int option"
  ocs :: "vec3 \<Rightarrow> vec3"
  dxf_start :: "vec3 option"
  dxf_end :: "vec3 option"
  get_points :: "(real \<times> real) list option"
  lw_closed :: "bool option"
  vertices :: "vec3 option list option"
  is_closed :: "bool option"
  dxf_center :: "vec3 option"
  dxf_radius :: "real option"
  dxf_start_angle :: "real option"
  dxf_end_angle :: "real option"
  dxf_location :: "vec3 option"
  dxf_halign :: "int option"
  dxf_valign :: "int option"
  dxf_align_point :: "vec3 option"
  dxf_insert :: "vec3 option"
  dxf_text :: "string option"
  mtext_text :: "string option"
  dxf_name :: "string option"
  dxf_defpoint :: "vec3 option"
  dxf_defpoint2 :: "vec3 option"

datatype coordinates =
    Position position
  | Positions "position list"
  | Rings "position list list"

record geometry =
  gtype :: string
  coordinates :: coordinates

record feature =
  ftype :: string
  geometry :: geometry
  properties :: props

text \<open>The three values the loop accumulates and returns.\<close>

record conversion =
  features :: "feature list"
  skipped :: "string \<rightharpoonup> nat"
  filtered :: nat

subsection \<open>Helpers of the source\<close>

text \<open>\<^verbatim>\<open>round(x, ndigits)\<close> on a float: to the nearest multiple of \<open>10^-ndigits\<close>, ties to even.\<close>

definition round_half_even :: "real \<Rightarrow> int" where
  "round_half_even x =
     (let f = \<lfloor>x\<rfloor>; d = x - of_int f
      in if d < 1 / 2 then f else if 1 / 2 < d then f + 1 else if even f then f else f + 1)"

definition py_round :: "real \<Rightarrow> nat \<Rightarrow> real" where
  "py_round x ndigits = of_int (round_half_even (x * 10 ^ ndigits)) / 10 ^ ndigits"

definition reproject :: "transformer \<Rightarrow> real \<Rightarrow> real \<Rightarrow> position" where
  "reproject transformer x y =
     (case transformer x y of (lng, lat) \<Rightarrow> (py_round lng 7, py_round lat 7))"

text \<open>
  \<^verbatim>\<open>for i in range(segments + 1)\<close> runs over \<open>[0..segments]\<close>, the empty list when
  \<open>segments\<close> is negative; with \<open>segments = 0\<close> the first division raises
  \<^verbatim>\<open>ZeroDivisionError\<close>.
\<close>

definition circle_to_polygon ::
  "real \<Rightarrow> real \<Rightarrow> real \<Rightarrow> transformer \<Rightarrow> int \<Rightarrow> position list option" where
  "circle_to_polygon cx cy radius transformer segments =
     (if segments = 0 then None
      else Some (map (\<lambda>i. let angle = 2 * pi * of_int i / of_int segments;
                               x = cx + radius * cos angle;
                               y = cy + radius * sin angle
                           in reproject transformer x y)
                     [0..segments]))"

definition radians :: "real \<Rightarrow> real" where
  "radians deg = deg * (pi / 180)"

text \<open>The first lines of \<^verbatim>\<open>arc_to_linestring\<close>: the pair \<open>(sa, ea)\<close> the loop samples between.\<close>

definition arc_angles :: "real \<Rightarrow> real \<Rightarrow> real \<times> real" where
  "arc_angles start_angle end_angle =
     (let sa = radians start_angle;
          ea = radians end_angle;
          ea = (if ea \<le> sa then ea + 2 * pi else ea)
      in (sa, ea))"

text \<open>
  A float operation whose exact result is \<open>x\<close> yields an infinity when \<open>x\<close> is at least
  half an ulp beyond the largest double \<open>2^1024 - 2^971\<close> in magnitude (round to nearest,
  ties to even).
\<close>

definition float_overflows :: "real \<Rightarrow> bool" where
  "float_overflows x \<longleftrightarrow> 2 ^ 1024 - 2 ^ 970 \<le> \<bar>x\<bar>"

text \<open>
  In \<^verbatim>\<open>angle = sa + (ea - sa) * i / segments\<close> the product is formed first. When it
  overflows, the angle is infinite and \<^verbatim>\<open>math.cos(angle)\<close> raises; the exception
  leaves the function, so one such sample makes the whole call raise.
\<close>

definition arc_to_linestring ::
  "real \<Rightarrow> real \<Rightarrow> real \<Rightarrow> real \<Rightarrow> real \<Rightarrow> transformer \<Rightarrow> int \<Rightarrow> position list option" where
  "arc_to_linestring cx cy radius start_angle end_angle transformer segments =
     (case arc_angles start_angle end_angle of (sa, ea) \<Rightarrow>
        if segments = 0 then None
        else those (map (\<lambda>i. if float_overflows ((ea - sa) * of_int i) then None
                              else let angle = sa + (ea - sa) * of_int i / of_int segments;
                                       x = cx + radius * cos angle;
                                       y = cy + radius * sin angle
                                   in Some (reproject transformer x y))
                        [0..segments]))"

fun str_nat :: "nat \<Rightarrow> string" where
  "str_nat n =
     (if n < 10 then [''0123456789'' ! n]
      else str_nat (n div 10) @ [''0123456789'' ! (n mod 10)])"

definition str_int :: "int \<Rightarrow> string" where
  "str_int c = (if c < 0 then CHR ''-'' # str_nat (nat (- c)) else str_nat (nat c))"

definition entity_color :: "entity \<Rightarrow> string option" where
  "entity_color e =
     (case dxf_color e of
        None \<Rightarrow> None
      | Some c \<Rightarrow> if c \<noteq> 0 \<and> c \<noteq> 256 then Some (str_int c) else None)"

definition in_utm_range :: "real \<Rightarrow> real \<Rightarrow> bool" where
  "in_utm_range x y \<longleftrightarrow> 150000 < x \<and> x < 850000 \<and> 3100000 < y \<and> y < 4300000"

definition to_wcs :: "entity \<Rightarrow> vec3 \<Rightarrow> real \<times> real" where
  "to_wcs e point = (case ocs e point of (x, y, z) \<Rightarrow> (x, y))"

definition make_feature :: "string \<Rightarrow> coordinates \<Rightarrow> props \<Rightarrow> feature" where
  "make_feature geom_type coords props =
     \<lparr>ftype = ''Feature'',
      geometry = \<lparr>gtype = geom_type, coordinates = coords\<rparr>,
      properties = props\<rparr>"

subsection \<open>The loop of \<^verbatim>\<open>convert_dxf\<close>\<close>

text \<open>
  The loop body updates \<open>features\<close>, \<open>skipped\<close> and \<open>filtered\<close>. Its three updates:
  \<^verbatim>\<open>features.append(f)\<close>, \<^verbatim>\<open>filtered += 1; continue\<close> and
  \<^verbatim>\<open>skipped[dxftype] = skipped.get(dxftype, 0) + 1\<close>.
\<close>

definition append_feature :: "conversion \<Rightarrow> feature \<Rightarrow> conversion" where
  "append_feature st f = st\<lparr>features := features st @ [f]\<rparr>"

definition count_filtered :: "conversion \<Rightarrow> conversion" where
  "count_filtered st = st\<lparr>filtered := filtered st + 1\<rparr>"

definition count_skipped :: "conversion \<Rightarrow> string \<Rightarrow> conversion" where
  "count_skipped st t =
     st\<lparr>skipped := (skipped st)(t \<mapsto> (case skipped st t of None \<Rightarrow> 0 | Some n \<Rightarrow> n) + 1)\<rparr>"

text \<open>\<^verbatim>\<open>entity.dxf.get(name, default)\<close>: the default where the attribute is absent.\<close>

definition dxf_get :: "'a option \<Rightarrow> 'a \<Rightarrow> 'a" where
  "dxf_get attr dflt = (case attr of None \<Rightarrow> dflt | Some v \<Rightarrow> v)"

text \<open>
  Each branch of the \<^verbatim>\<open>if dxftype == ...\<close> chain inside the \<^verbatim>\<open>try\<close> is one
  definition. It returns the accumulated values after the branch, or \<open>None\<close> when the
  branch raises. No branch changes \<open>features\<close>, \<open>skipped\<close> or \<open>filtered\<close> before a
  statement that can raise, so a raising branch leaves them as they were.
\<close>

definition branch_LINE :: "transformer \<Rightarrow> entity \<Rightarrow> props \<Rightarrow> conversion \<Rightarrow> conversion option" where
  "branch_LINE transformer e props st =
     do { s \<leftarrow> dxf_start e;
          en \<leftarrow> dxf_end e;
          (case (to_wcs e s, to_wcs e en) of ((sx, sy), (ex, ey)) \<Rightarrow>
             if \<not> in_utm_range sx sy \<or> \<not> in_utm_range ex ey then Some (count_filtered st)
             else Some (append_feature st
                    (make_feature ''LineString''
                       (Positions [reproject transformer sx sy, reproject transformer ex ey])
                       props))) }"

text \<open>
  What both polyline branches do once the vertices are in world coordinates and at least
  two of them were read. \<^verbatim>\<open>coords[0]\<close> raises on an empty list.
\<close>

definition polyline_tail ::
  "transformer \<Rightarrow> (real \<times> real) list \<Rightarrow> bool option \<Rightarrow> props \<Rightarrow> conversion \<Rightarrow> conversion option" where
  "polyline_tail transformer wcs_points closed_attr props st =
     (let points = filter (\<lambda>(x, y). in_utm_range x y) wcs_points in
      if length points < 2 then Some (count_filtered st)
      else
        let coords = map (\<lambda>(x, y). reproject transformer x y) points in
        do { c \<leftarrow> closed_attr;
             if c then
               (case coords of
                  [] \<Rightarrow> None
                | c0 # _ \<Rightarrow>
                    Some (append_feature st
                      (make_feature ''Polygon'' (Rings [coords @ [c0]]) props)))
             else Some (append_feature st (make_feature ''LineString'' (Positions coords) props)) })"

definition branch_LWPOLYLINE :: "transformer \<Rightarrow> entity \<Rightarrow> props \<Rightarrow> conversion \<Rightarrow> conversion option" where
  "branch_LWPOLYLINE transformer e props st =
     do { raw_points \<leftarrow> get_points e;
          if length raw_points < 2 then Some st
          else polyline_tail transformer
                 (map (\<lambda>(x, y). to_wcs e (x, y, 0)) raw_points) (lw_closed e) props st }"

definition branch_POLYLINE :: "transformer \<Rightarrow> entity \<Rightarrow> props \<Rightarrow> conversion \<Rightarrow> conversion option" where
  "branch_POLYLINE transformer e props st =
     do { vs \<leftarrow> vertices e;
          points \<leftarrow> those (map (map_option (to_wcs e)) vs);
          if length points < 2 then Some st
          else polyline_tail transformer points (is_closed e) props st }"

definition branch_CIRCLE :: "transformer \<Rightarrow> entity \<Rightarrow> props \<Rightarrow> conversion \<Rightarrow> conversion option" where
  "branch_CIRCLE transformer e props st =
     do { c \<leftarrow> dxf_center e;
          (case to_wcs e c of (cx, cy) \<Rightarrow>
             if \<not> in_utm_range cx cy then Some (count_filtered st)
             else do { radius \<leftarrow> dxf_radius e;
                       coords \<leftarrow> circle_to_polygon cx cy radius transformer 64;
                       Some (append_feature st (make_feature ''Polygon'' (Rings [coords]) props)) }) }"

definition branch_ARC :: "transformer \<Rightarrow> entity \<Rightarrow> props \<Rightarrow> conversion \<Rightarrow> conversion option" where
  "branch_ARC transformer e props st =
     do { c \<leftarrow> dxf_center e;
          (case to_wcs e c of (cx, cy) \<Rightarrow>
             if \<not> in_utm_range cx cy then Some (count_filtered st)
             else do { radius \<leftarrow> dxf_radius e;
                       start_angle \<leftarrow> dxf_start_angle e;
                       end_angle \<leftarrow> dxf_end_angle e;
                       coords \<leftarrow> arc_to_linestring cx cy radius start_angle end_angle transformer 32;
                       if 2 \<le> length coords
                       then Some (append_feature st (make_feature ''LineString'' (Positions coords) props))
                       else Some st }) }"

definition branch_POINT :: "transformer \<Rightarrow> entity \<Rightarrow> props \<Rightarrow> conversion \<Rightarrow> conversion option" where
  "branch_POINT transformer e props st =
     do { p \<leftarrow> dxf_location e;
          (case to_wcs e p of (px, py) \<Rightarrow>
             if \<not> in_utm_range px py then Some (count_filtered st)
             else Some (append_feature st
                    (make_feature ''Point'' (Position (reproject transformer px py)) props))) }"

text \<open>
  In \<^verbatim>\<open>entity.dxf.get('align_point', entity.dxf.insert)\<close> the default is evaluated before
  the call, so a missing insertion point raises there too.
\<close>

definition text_point :: "entity \<Rightarrow> vec3 option" where
  "text_point e =
     (let halign = dxf_get (dxf_halign e) 0;
          valign = dxf_get (dxf_valign e) 0
      in if halign \<noteq> 0 \<or> valign \<noteq> 0
         then do { ins \<leftarrow> dxf_insert e; Some (dxf_get (dxf_align_point e) ins) }
         else dxf_insert e)"

definition branch_TEXT :: "transformer \<Rightarrow> entity \<Rightarrow> props \<Rightarrow> conversion \<Rightarrow> conversion option" where
  "branch_TEXT transformer e props st =
     do { pt \<leftarrow> text_point e;
          (case to_wcs e pt of (tx, ty) \<Rightarrow>
             if \<not> in_utm_range tx ty then Some (count_filtered st)
             else
               let coord = reproject transformer tx ty;
                   props = AList.update ''text'' (case dxf_text e of Some t \<Rightarrow> t | None \<Rightarrow> []) props
               in Some (append_feature st (make_feature ''Point'' (Position coord) props))) }"

definition branch_MTEXT :: "transformer \<Rightarrow> entity \<Rightarrow> props \<Rightarrow> conversion \<Rightarrow> conversion option" where
  "branch_MTEXT transformer e props st =
     do { ins \<leftarrow> dxf_insert e;
          (case to_wcs e ins of (mx, my) \<Rightarrow>
             if \<not> in_utm_range mx my then Some (count_filtered st)
             else
               let coord = reproject transformer mx my;
                   props = AList.update ''text'' (case mtext_text e of Some t \<Rightarrow> t | None \<Rightarrow> []) props
               in Some (append_feature st (make_feature ''Point'' (Position coord) props))) }"

definition branch_INSERT :: "transformer \<Rightarrow> entity \<Rightarrow> props \<Rightarrow> conversion \<Rightarrow> conversion option" where
  "branch_INSERT transformer e props st =
     do { ins \<leftarrow> dxf_insert e;
          (case to_wcs e ins of (ix, iy) \<Rightarrow>
             if \<not> in_utm_range ix iy then Some (count_filtered st)
             else
               let coord = reproject transformer ix iy;
                   props = (case dxf_name e of Some n \<Rightarrow> AList.update ''block'' n props | None \<Rightarrow> props)
               in Some (append_feature st (make_feature ''Point'' (Position coord) props))) }"

text \<open>
  The DIMENSION branch wraps its statements in a \<^verbatim>\<open>try\<close> of its own:
  \<open>dimension_try\<close> is the body of that inner \<^verbatim>\<open>try\<close>, and the branch answers a raise
  with \<^verbatim>\<open>pass\<close>.
\<close>

definition dimension_try :: "transformer \<Rightarrow> entity \<Rightarrow> props \<Rightarrow> conversion \<Rightarrow> conversion option" where
  "dimension_try transformer e props st =
     do { d1 \<leftarrow> dxf_defpoint e;
          d2 \<leftarrow> dxf_defpoint2 e;
          (case (to_wcs e d1, to_wcs e d2) of ((d1x, d1y), (d2x, d2y)) \<Rightarrow>
             if \<not> in_utm_range d1x d1y \<or> \<not> in_utm_range d2x d2y then Some (count_filtered st)
             else Some (append_feature st
                    (make_feature ''LineString''
                       (Positions [reproject transformer d1x d1y, reproject transformer d2x d2y])
                       props))) }"

definition branch_DIMENSION :: "transformer \<Rightarrow> entity \<Rightarrow> props \<Rightarrow> conversion \<Rightarrow> conversion option" where
  "branch_DIMENSION transformer e props st =
     (case dimension_try transformer e props st of
        Some st' \<Rightarrow> Some st'
      | None \<Rightarrow> Some st)"

text \<open>The body of the outer \<^verbatim>\<open>try\<close>: the chain of branches, in the order of the source.\<close>

definition try_body :: "transformer \<Rightarrow> entity \<Rightarrow> props \<Rightarrow> conversion \<Rightarrow> conversion option" where
  "try_body transformer e props st =
     (if dxftype e = ''LINE'' then branch_LINE transformer e props st
      else if dxftype e = ''LWPOLYLINE'' then branch_LWPOLYLINE transformer e props st
      else if dxftype e = ''POLYLINE'' then branch_POLYLINE transformer e props st
      else if dxftype e = ''CIRCLE'' then branch_CIRCLE transformer e props st
      else if dxftype e = ''ARC'' then branch_ARC transformer e props st
      else if dxftype e = ''POINT'' then branch_POINT transformer e props st
      else if dxftype e = ''TEXT'' then branch_TEXT transformer e props st
      else if dxftype e = ''MTEXT'' then branch_MTEXT transformer e props st
      else if dxftype e = ''INSERT'' then branch_INSERT transformer e props st
      else if dxftype e = ''DIMENSION'' then branch_DIMENSION transformer e props st
      else Some (count_skipped st (dxftype e)))"

text \<open>The properties every feature of the entity starts from.\<close>

definition entity_props :: "entity \<Rightarrow> props" where
  "entity_props e =
     (let layer = dxf_get (dxf_layer e) ''0'';
          props = [(''layer'', layer), (''type'', dxftype e)]
      in case entity_color e of
           Some color \<Rightarrow> if color \<noteq> [] then AList.update ''color'' color props else props
         | None \<Rightarrow> props)"

text \<open>One iteration of the loop: the \<^verbatim>\<open>try\<close> with its \<^verbatim>\<open>except Exception\<close>.\<close>

definition process_entity :: "transformer \<Rightarrow> conversion \<Rightarrow> entity \<Rightarrow> conversion" where
  "process_entity transformer st e =
     (case try_body transformer e (entity_props e) st of
        Some st' \<Rightarrow> st'
      | None \<Rightarrow> count_skipped st (dxftype e))"

text \<open>
  \<^verbatim>\<open>convert_dxf\<close>, from the model space \<open>msp\<close> that \<^verbatim>\<open>ezdxf\<close> returns and the
  transformer that \<^verbatim>\<open>make_transformer\<close> returns. The loop starts from
  \<^verbatim>\<open>features = []\<close>, \<^verbatim>\<open>skipped = {}\<close>, \<^verbatim>\<open>filtered = 0\<close>.
\<close>

definition no_results :: conversion where
  "no_results = \<lparr>features = [], skipped = Map.empty, filtered = 0\<rparr>"

definition convert_dxf :: "transformer \<Rightarrow> entity list \<Rightarrow> conversion" where
  "convert_dxf transformer msp = foldl (process_entity transformer) no_results msp"

subsection \<open>What the statements below speak about\<close>

text \<open>The plausibility test on a point given as a pair.\<close>

definition plausible :: "real \<times> real \<Rightarrow> bool" where
  "plausible p = (case p of (x, y) \<Rightarrow> in_utm_range x y)"

text \<open>
  The defining points of an entity that is not a polyline: the world coordinates its branch
  hands to \<^verbatim>\<open>in_utm_range\<close> before it emits anything, read off the branch (start and
  end of a LINE, the centre of a CIRCLE or an ARC, the location of a POINT, the alignment
  or insertion point of a TEXT, the insertion point of an MTEXT or an INSERT, the two
  definition points of a DIMENSION). \<open>None\<close> when reading them raises, and for every
  other kind.
\<close>

definition defining_points :: "entity \<Rightarrow> (real \<times> real) list option" where
  "defining_points e =
     (if dxftype e = ''LINE''
        then do { s \<leftarrow> dxf_start e; en \<leftarrow> dxf_end e; Some [to_wcs e s, to_wcs e en] }
      else if dxftype e = ''CIRCLE'' \<or> dxftype e = ''ARC''
        then do { c \<leftarrow> dxf_center e; Some [to_wcs e c] }
      else if dxftype e = ''POINT''
        then do { p \<leftarrow> dxf_location e; Some [to_wcs e p] }
      else if dxftype e = ''TEXT''
        then do { pt \<leftarrow> text_point e; Some [to_wcs e pt] }
      else if dxftype e = ''MTEXT'' \<or> dxftype e = ''INSERT''
        then do { ins \<leftarrow> dxf_insert e; Some [to_wcs e ins] }
      else if dxftype e = ''DIMENSION''
        then do { d1 \<leftarrow> dxf_defpoint e; d2 \<leftarrow> dxf_defpoint2 e;
                  Some [to_wcs e d1, to_wcs e d2] }
      else None)"

text \<open>
  The vertices of a polyline in world coordinates, before any filtering: the list whose
  length both polyline branches test first. \<open>None\<close> when reading it raises, and for
  every other kind. \<open>polyline_closed\<close> is the closed flag the branch reads.
\<close>

definition polyline_points :: "entity \<Rightarrow> (real \<times> real) list option" where
  "polyline_points e =
     (if dxftype e = ''LWPOLYLINE''
        then do { raw_points \<leftarrow> get_points e;
                  Some (map (\<lambda>(x, y). to_wcs e (x, y, 0)) raw_points) }
      else if dxftype e = ''POLYLINE''
        then do { vs \<leftarrow> vertices e; those (map (map_option (to_wcs e)) vs) }
      else None)"


text \<open>
  Size conditions on a feature: a LineString carries a list of at least \<open>n\<close> positions;
  a Polygon carries exactly one ring of at least \<open>n\<close> positions.
\<close>

definition linestring_min :: "nat \<Rightarrow> feature \<Rightarrow> bool" where
  "linestring_min n f \<longleftrightarrow>
     (gtype (geometry f) = ''LineString'' \<longrightarrow>
        (case coordinates (geometry f) of Positions cs \<Rightarrow> n \<le> length cs | _ \<Rightarrow> False))"

definition polygon_ring_min :: "nat \<Rightarrow> feature \<Rightarrow> bool" where
  "polygon_ring_min n f \<longleftrightarrow>
     (gtype (geometry f) = ''Polygon'' \<longrightarrow>
        (case coordinates (geometry f) of Rings [ring] \<Rightarrow> n \<le> length ring | _ \<Rightarrow> False))"

definition feature_ok :: "feature \<Rightarrow> bool" where
  "feature_ok f \<longleftrightarrow> linestring_min 2 f \<and> polygon_ring_min 3 f"

text \<open>
  What a branch that does not raise may do to the accumulated values: nothing, count the
  entity as filtered, or append one feature of acceptable size.
\<close>

definition outcome :: "conversion \<Rightarrow> conversion option \<Rightarrow> bool" where
  "outcome st r \<longleftrightarrow>
     (case r of
        None \<Rightarrow> True
      | Some st' \<Rightarrow>
          st' = st \<or> st' = count_filtered st \<or> (\<exists>f. st' = append_feature st f \<and> feature_ok f))"

subsection \<open>Inputs for the examples\<close>

text \<open>
  An entity of a given kind on which every attribute read raises and whose object
  coordinate system is the world's; the examples set the attributes they need. The
  transformer of the examples scales both axes.
\<close>

definition bare :: "string \<Rightarrow> entity" where
  "bare t =
     \<lparr>dxftype = t, dxf_layer = None, dxf_color = None, ocs = (\<lambda>p. p),
      dxf_start = None, dxf_end = None, get_points = None, lw_closed = None,
      vertices = None, is_closed = None, dxf_center = None, dxf_radius = None,
      dxf_start_angle = None, dxf_end_angle = None, dxf_location = None,
      dxf_halign = None, dxf_valign = None, dxf_align_point = None, dxf_insert = None,
      dxf_text = None, mtext_text = None, dxf_name = None, dxf_defpoint = None,
      dxf_defpoint2 = None\<rparr>"

definition demo_transformer :: transformer where
  "demo_transformer x y = (x / 100000, y / 100000)"

text \<open>A line inside the plausible box, and one whose end is near the origin.\<close>

definition line_AB :: entity where
  "line_AB = (bare ''LINE'')
     \<lparr>dxf_start := Some (300000, 3600000, 0), dxf_end := Some (300100, 3600100, 0)\<rparr>"


text \<open>A line whose end point cannot be read.\<close>

definition line_half :: entity where
  "line_half = (bare ''LINE'')\<lparr>dxf_start := Some (300000, 3600000, 0)\<rparr>"

text \<open>A closed polyline of two plausible vertices.\<close>

definition closed_pair :: entity where
  "closed_pair = (bare ''LWPOLYLINE'')
     \<lparr>get_points := Some [(300000, 3600000), (300100, 3600100)], lw_closed := Some True\<rparr>"



text \<open>A polyline of a single vertex.\<close>

definition lw_single :: entity where
  "lw_single = (bare ''LWPOLYLINE'')
     \<lparr>get_points := Some [(300000, 3600000)], lw_closed := Some False\<rparr>"

text \<open>A dimension whose second definition point cannot be read.\<close>

definition dim_half :: entity where
  "dim_half = (bare ''DIMENSION'')\<lparr>dxf_defpoint := Some (300000, 3600000, 0)\<rparr>"



section \<open>The plausibility test\<close>

text \<open>
  C4. A point \<open>(x, y)\<close> is judged plausible if and only if \<open>150000 < x < 850000\<close> and
  \<open>3100000 < y < 4300000\<close>; both intervals are open, so a coordinate exactly at one of
  the four boundary values is rejected whatever the other coordinate is.
\<close>

theorem in_utm_range_open_box:
  "(in_utm_range x y \<longleftrightarrow> 150000 < x \<and> x < 850000 \<and> 3100000 < y \<and> y < 4300000)
   \<and> \<not> in_utm_range 150000 y \<and> \<not> in_utm_range 850000 y
   \<and> \<not> in_utm_range x 3100000 \<and> \<not> in_utm_range x 4300000"
  by (simp add: in_utm_range_def)

lemma plausible_fun: "(\<lambda>(x, y). in_utm_range x y) = plausible"
  by (simp add: fun_eq_iff plausible_def)

section \<open>Tessellation\<close>

subsection \<open>Circles\<close>

text \<open>
  With the default of 64 segments a circle becomes 65 positions, the \<open>i\<close>-th at the
  angle \<open>i * (2 * pi / 64)\<close>, whatever the centre and the radius.
\<close>

lemma circle_to_polygon_64:
  "\<exists>cs. circle_to_polygon cx cy r tr 64 = Some cs \<and> length cs = 65"
  by (simp add: circle_to_polygon_def)

lemma circle_samples:
  "circle_to_polygon cx cy r tr 64 =
     Some (map (\<lambda>i. reproject tr (cx + r * cos (of_int i * (2 * pi / 64)))
                              (cy + r * sin (of_int i * (2 * pi / 64))))
               [0..64])"
  by (simp add: circle_to_polygon_def Let_def mult.commute)

lemma upto_0_64: "[0..64::int] = 0 # [1..63] @ [64]"
proof -
  have "[0..64::int] = 0 # [1..64]" by (simp add: upto_rec1)
  also have "[1..64::int] = [1..63] @ [64]" by (simp add: upto_rec2)
  finally show ?thesis .
qed

text \<open>
  In exact arithmetic the ring of a circle is closed, because \<open>cos (2 * pi) = cos 0\<close> and
  \<open>sin (2 * pi) = sin 0\<close>.
\<close>

lemma circle_ring_closed_exact:
  assumes "circle_to_polygon cx cy r tr 64 = Some ring"
  shows "hd ring = last ring"
proof -
  have "ring = map (\<lambda>i. reproject tr (cx + r * cos (of_int i * (2 * pi / 64)))
                              (cy + r * sin (of_int i * (2 * pi / 64))))
               (0 # [1..63] @ [64])"
    using assms by (simp only: circle_samples upto_0_64) simp
  then show ?thesis by simp
qed

text \<open>
  The lemma is a statement about the idealised ring only; this is the one place where
  reading floats as reals hides what the program does. C5 and C7 ask that the ring the
  program returns be closed. The source does not copy the first position to the end, as
  the closed polyline branches do; it computes position 64 on its own, from the cosine and
  sine of \<open>2 * pi * 64 / 64\<close>. For Python's doubles \<^verbatim>\<open>math.sin(2 * math.pi)\<close> is
  \<open>-2.4492935982947064e-16\<close> and not \<open>0\<close>, so the program's position 64 is computed from
  \<open>cy + radius * -2.4492935982947064e-16\<close>, which differs from \<open>cy\<close> once the radius is
  large: for the centre \<open>(400000, 3700000)\<close> and the radius \<open>1e15\<close> the program
  reprojects \<open>(1000000000400000.0, 3700000.0)\<close> for position 0 and
  \<open>(1000000000400000.0, 3699999.7550706402)\<close> for position 64, and a transformer that
  keeps these apart yields a ring that is not closed.
\<close>

subsection \<open>Arcs\<close>

lemma radians_le_iff: "radians a \<le> radians b \<longleftrightarrow> a \<le> b"
  by (simp add: radians_def)

lemma arc_angles_eq:
  "arc_angles s e = (radians s, if e \<le> s then radians e + 2 * pi else radians e)"
  by (simp add: arc_angles_def Let_def radians_le_iff)

lemma sweep_as_turns:
  "snd (arc_angles s e) - fst (arc_angles s e)
     = ((e - s) / 180 + (if e \<le> s then 2 else 0)) * pi"
  by (cases "e \<le> s") (simp_all add: arc_angles_eq radians_def field_simps)

lemma sweep_in_range_iff:
  "(0 < snd (arc_angles s e) - fst (arc_angles s e)
      \<and> snd (arc_angles s e) - fst (arc_angles s e) \<le> 2 * pi)
   \<longleftrightarrow> (- 360 < e - s \<and> e - s \<le> 360)"
proof -
  let ?a = "(e - s) / 180 + (if e \<le> s then 2 else 0)"
  have pos: "0 < ?a * pi \<longleftrightarrow> 0 < ?a"
    by (simp add: zero_less_mult_iff)
  have le: "?a * pi \<le> 2 * pi \<longleftrightarrow> ?a \<le> 2"
    by (simp only: mult_le_cancel_right) (simp add: not_less [symmetric])
  have "(0 < ?a \<and> ?a \<le> 2) \<longleftrightarrow> (- 360 < e - s \<and> e - s \<le> 360)"
  proof (cases "e \<le> s")
    case True
    have "(0 < (e - s) / 180 + 2) = (- 360 < e - s)" by (auto simp: field_simps)
    moreover have "((e - s) / 180 + 2 \<le> 2) = (e \<le> s)" by (auto simp: field_simps)
    ultimately show ?thesis using True by simp
  next
    case False
    have "((e - s) / 180 \<le> 2) = (e - s \<le> 360)" by (auto simp: field_simps)
    moreover have "(0 < (e - s) / 180) = (s < e)" by (auto simp: field_simps)
    ultimately show ?thesis using False by simp
  qed
  then show ?thesis
    by (simp only: sweep_as_turns pos le)
qed

lemma those_map_Some:
  "(\<And>x. x \<in> set xs \<Longrightarrow> f x = Some (g x)) \<Longrightarrow> those (map f xs) = Some (map g xs)"
  by (induction xs) simp_all

lemma those_map_None:
  "x \<in> set xs \<Longrightarrow> f x = None \<Longrightarrow> those (map f xs) = None"
  by (induction xs) (auto split: option.split)

lemma those_length: "those xs = Some ys \<Longrightarrow> length ys = length xs"
  by (induction xs arbitrary: ys) (auto split: option.split_asm)

lemma float_overflows_mono:
  assumes "0 \<le> i" and "i \<le> 32" and "float_overflows (d * of_int i)"
  shows "float_overflows (d * 32)"
proof -
  have "\<bar>d * of_int i\<bar> = \<bar>d\<bar> * of_int i"
    using assms(1) by (simp add: abs_mult)
  also have "\<dots> \<le> \<bar>d\<bar> * 32"
    using assms(2) by (intro mult_left_mono) simp_all
  finally have "\<bar>d * of_int i\<bar> \<le> \<bar>d * 32\<bar>"
    by (simp add: abs_mult)
  with assms(3) show ?thesis
    unfolding float_overflows_def by linarith
qed

text \<open>
  With 32 segments the call raises exactly when the product for the last sample
  overflows, and otherwise returns the 33 samples.
\<close>

lemma arc_samples:
  "arc_to_linestring cx cy r s e tr 32 =
     (if float_overflows ((snd (arc_angles s e) - fst (arc_angles s e)) * 32) then None
      else Some (map (\<lambda>i. reproject tr
                   (cx + r * cos (radians s
                      + of_int i * ((snd (arc_angles s e) - fst (arc_angles s e)) / 32)))
                   (cy + r * sin (radians s
                      + of_int i * ((snd (arc_angles s e) - fst (arc_angles s e)) / 32))))
               [0..32]))"
proof -
  let ?d = "snd (arc_angles s e) - fst (arc_angles s e)"
  let ?f = "\<lambda>i::int. if float_overflows (?d * of_int i) then None
      else Some (reproject tr (cx + r * cos (fst (arc_angles s e) + ?d * of_int i / 32))
                              (cy + r * sin (fst (arc_angles s e) + ?d * of_int i / 32)))"
  let ?g = "\<lambda>i::int. reproject tr
      (cx + r * cos (radians s + of_int i * (?d / 32)))
      (cy + r * sin (radians s + of_int i * (?d / 32)))"
  have unfolded: "arc_to_linestring cx cy r s e tr 32 = those (map ?f [0..32])"
    by (simp add: arc_to_linestring_def Let_def case_prod_beta cong: if_cong)
  show ?thesis
  proof (cases "float_overflows (?d * 32)")
    case True
    have "(32::int) \<in> set [0..32]" by simp
    moreover have "?f 32 = None" using True by simp
    ultimately have "those (map ?f [0..32]) = None" by (rule those_map_None)
    with True unfolded show ?thesis by simp
  next
    case False
    have "?f i = Some (?g i)" if "i \<in> set [0..32]" for i
    proof -
      from that have "0 \<le> i" "i \<le> 32" by simp_all
      with False have "\<not> float_overflows (?d * of_int i)"
        using float_overflows_mono [of i ?d] by blast
      then show ?thesis by (simp add: arc_angles_eq mult.commute)
    qed
    then have "those (map ?f [0..32]) = Some (map ?g [0..32])" by (rule those_map_Some)
    with False unfolded show ?thesis by simp
  qed
qed


text \<open>
  C6, as amended. \<^verbatim>\<open>arc_to_linestring\<close> converts both angles to radians and adds
  \<open>2 * pi\<close> to the end angle, once, exactly when the end angle is not greater than the
  start angle; it then samples 33 angles, the \<open>i\<close>-th being the start angle plus \<open>i\<close>
  times one 32nd of the sweep (and raises instead when 32 times the sweep is too large for
  a double). With the angles read as exact real numbers of degrees, the
  sweep is positive and at most a full turn if and only if
  \<open>-360 < end_angle - start_angle \<le> 360\<close>, which covers all angles in \<open>[0, 360)\<close>; the
  source does not reduce angles outside that range.
\<close>

theorem arc_sweep:
  "fst (arc_angles s e) = radians s
   \<and> snd (arc_angles s e) = (if e \<le> s then radians e + 2 * pi else radians e)
   \<and> ((0 < snd (arc_angles s e) - fst (arc_angles s e)
         \<and> snd (arc_angles s e) - fst (arc_angles s e) \<le> 2 * pi)
        \<longleftrightarrow> (- 360 < e - s \<and> e - s \<le> 360))
   \<and> arc_to_linestring cx cy r s e tr 32 =
       (if float_overflows ((snd (arc_angles s e) - fst (arc_angles s e)) * 32) then None
        else Some (map (\<lambda>i. reproject tr
                     (cx + r * cos (radians s
                        + of_int i * ((snd (arc_angles s e) - fst (arc_angles s e)) / 32)))
                     (cy + r * sin (radians s
                        + of_int i * ((snd (arc_angles s e) - fst (arc_angles s e)) / 32))))
                 [0..32]))"
proof (intro conjI)
  show "fst (arc_angles s e) = radians s"
    by (simp add: arc_angles_eq)
  show "snd (arc_angles s e) = (if e \<le> s then radians e + 2 * pi else radians e)"
    by (simp add: arc_angles_eq)
  show "(0 < snd (arc_angles s e) - fst (arc_angles s e)
         \<and> snd (arc_angles s e) - fst (arc_angles s e) \<le> 2 * pi)
        \<longleftrightarrow> (- 360 < e - s \<and> e - s \<le> 360)"
    by (rule sweep_in_range_iff)
  show "arc_to_linestring cx cy r s e tr 32 =
       (if float_overflows ((snd (arc_angles s e) - fst (arc_angles s e)) * 32) then None
        else Some (map (\<lambda>i. reproject tr
                     (cx + r * cos (radians s
                        + of_int i * ((snd (arc_angles s e) - fst (arc_angles s e)) / 32)))
                     (cy + r * sin (radians s
                        + of_int i * ((snd (arc_angles s e) - fst (arc_angles s e)) / 32))))
                 [0..32]))"
    by (rule arc_samples)
qed

text \<open>
  C6 as stated fails: an arc from 0 to 720 degrees is not wrapped and sweeps two full
  turns, more than 360 degrees; an arc from 720 to 0 degrees is wrapped once and still
  sweeps backwards.
\<close>

theorem wide_sweep_counterexample:
  "\<not> (snd (arc_angles 0 720) - fst (arc_angles 0 720) \<le> 2 * pi)
   \<and> \<not> (0 < snd (arc_angles 720 0) - fst (arc_angles 720 0))"
  by (simp add: sweep_as_turns)

section \<open>The loop\<close>

subsection \<open>The three updates\<close>

lemma features_count_filtered [simp]: "features (count_filtered st) = features st"
  by (simp add: count_filtered_def)

lemma features_count_skipped [simp]: "features (count_skipped st t) = features st"
  by (simp add: count_skipped_def)

lemma features_append_feature [simp]: "features (append_feature st f) = features st @ [f]"
  by (simp add: append_feature_def)

lemma filtered_append_feature [simp]: "filtered (append_feature st f) = filtered st"
  by (simp add: append_feature_def)

lemma filtered_count_skipped [simp]: "filtered (count_skipped st t) = filtered st"
  by (simp add: count_skipped_def)

lemma skipped_append_feature [simp]: "skipped (append_feature st f) = skipped st"
  by (simp add: append_feature_def)

lemma skipped_count_filtered [simp]: "skipped (count_filtered st) = skipped st"
  by (simp add: count_filtered_def)


lemma process_entity_Some:
  "try_body tr e (entity_props e) st = Some st' \<Longrightarrow> process_entity tr st e = st'"
  by (simp add: process_entity_def)

lemma process_entity_None:
  "try_body tr e (entity_props e) st = None \<Longrightarrow>
   process_entity tr st e = count_skipped st (dxftype e)"
  by (simp add: process_entity_def)

lemma try_body_kind:
  "dxftype e = ''LINE'' \<Longrightarrow> try_body tr e props st = branch_LINE tr e props st"
  "dxftype e = ''LWPOLYLINE'' \<Longrightarrow> try_body tr e props st = branch_LWPOLYLINE tr e props st"
  "dxftype e = ''POLYLINE'' \<Longrightarrow> try_body tr e props st = branch_POLYLINE tr e props st"
  "dxftype e = ''CIRCLE'' \<Longrightarrow> try_body tr e props st = branch_CIRCLE tr e props st"
  "dxftype e = ''ARC'' \<Longrightarrow> try_body tr e props st = branch_ARC tr e props st"
  "dxftype e = ''POINT'' \<Longrightarrow> try_body tr e props st = branch_POINT tr e props st"
  "dxftype e = ''TEXT'' \<Longrightarrow> try_body tr e props st = branch_TEXT tr e props st"
  "dxftype e = ''MTEXT'' \<Longrightarrow> try_body tr e props st = branch_MTEXT tr e props st"
  "dxftype e = ''INSERT'' \<Longrightarrow> try_body tr e props st = branch_INSERT tr e props st"
  "dxftype e = ''DIMENSION'' \<Longrightarrow> try_body tr e props st = branch_DIMENSION tr e props st"
  by (simp_all add: try_body_def)

lemma convert_dxf_append:
  "convert_dxf tr (before @ e # after) =
     foldl (process_entity tr) (process_entity tr (convert_dxf tr before) e) after"
  by (simp add: convert_dxf_def)

lemmas example_defs = bare_def to_wcs_def plausible_def in_utm_range_def no_results_def

subsection \<open>The size of what is emitted\<close>

lemma feature_ok_LineString:
  "2 \<le> length cs \<Longrightarrow> feature_ok (make_feature ''LineString'' (Positions cs) props)"
  by (simp add: feature_ok_def linestring_min_def polygon_ring_min_def make_feature_def)

lemma feature_ok_Polygon:
  "3 \<le> length ring \<Longrightarrow> feature_ok (make_feature ''Polygon'' (Rings [ring]) props)"
  by (simp add: feature_ok_def linestring_min_def polygon_ring_min_def make_feature_def)

lemma feature_ok_Point:
  "feature_ok (make_feature ''Point'' c props)"
  by (simp add: feature_ok_def linestring_min_def polygon_ring_min_def make_feature_def)

lemma outcome_None: "outcome st None"
  by (simp add: outcome_def)

lemma outcome_same: "outcome st (Some st)"
  by (simp add: outcome_def)

lemma outcome_filtered: "outcome st (Some (count_filtered st))"
  by (simp add: outcome_def)

lemma outcome_append: "feature_ok f \<Longrightarrow> outcome st (Some (append_feature st f))"
  unfolding outcome_def by (simp only: option.case) blast

lemmas outcome_intros = outcome_None outcome_same outcome_filtered outcome_append
  feature_ok_LineString feature_ok_Polygon feature_ok_Point

lemma branch_LINE_outcome: "outcome st (branch_LINE tr e props st)"
  by (simp add: branch_LINE_def outcome_intros split: option.split prod.split Option.bind_split)

lemma polyline_tail_outcome: "outcome st (polyline_tail tr ps c props st)"
  by (simp add: polyline_tail_def Let_def outcome_intros
      split: option.split list.split Option.bind_split)

lemma branch_LWPOLYLINE_outcome: "outcome st (branch_LWPOLYLINE tr e props st)"
  by (simp add: branch_LWPOLYLINE_def outcome_intros polyline_tail_outcome
      split: Option.bind_split)

lemma branch_POLYLINE_outcome: "outcome st (branch_POLYLINE tr e props st)"
  by (simp add: branch_POLYLINE_def outcome_intros polyline_tail_outcome
      split: Option.bind_split)

lemma branch_CIRCLE_outcome: "outcome st (branch_CIRCLE tr e props st)"
  by (simp add: branch_CIRCLE_def circle_to_polygon_def outcome_intros
      split: prod.split Option.bind_split)

lemma branch_ARC_outcome: "outcome st (branch_ARC tr e props st)"
  by (simp add: branch_ARC_def outcome_intros split: prod.split Option.bind_split)

lemma branch_POINT_outcome: "outcome st (branch_POINT tr e props st)"
  by (simp add: branch_POINT_def outcome_intros split: prod.split Option.bind_split)

lemma branch_TEXT_outcome: "outcome st (branch_TEXT tr e props st)"
  by (simp add: branch_TEXT_def Let_def outcome_intros split: prod.split Option.bind_split)

lemma branch_MTEXT_outcome: "outcome st (branch_MTEXT tr e props st)"
  by (simp add: branch_MTEXT_def Let_def outcome_intros split: prod.split Option.bind_split)

lemma branch_INSERT_outcome: "outcome st (branch_INSERT tr e props st)"
  by (simp add: branch_INSERT_def Let_def outcome_intros split: prod.split Option.bind_split)

lemma dimension_try_outcome: "outcome st (dimension_try tr e props st)"
  by (simp add: dimension_try_def outcome_intros split: prod.split Option.bind_split)

lemma branch_DIMENSION_outcome: "outcome st (branch_DIMENSION tr e props st)"
proof (cases "dimension_try tr e props st")
  case None
  then show ?thesis by (simp add: branch_DIMENSION_def outcome_same)
next
  case (Some st')
  with dimension_try_outcome [of st tr e props] show ?thesis
    by (simp add: branch_DIMENSION_def)
qed

lemmas branch_outcomes = branch_LINE_outcome branch_LWPOLYLINE_outcome branch_POLYLINE_outcome
  branch_CIRCLE_outcome branch_ARC_outcome branch_POINT_outcome branch_TEXT_outcome
  branch_MTEXT_outcome branch_INSERT_outcome branch_DIMENSION_outcome

lemma outcome_features:
  assumes "outcome st (Some st')"
  shows "features st' = features st \<or> (\<exists>f. features st' = features st @ [f] \<and> feature_ok f)"
  using assms unfolding outcome_def by (simp only: option.case) auto

lemma try_body_features:
  assumes "try_body tr e props st = Some st'"
  shows "features st' = features st \<or> (\<exists>f. features st' = features st @ [f] \<and> feature_ok f)"
proof (cases "try_body tr e props st = Some (count_skipped st (dxftype e))")
  case True
  with assms have "st' = count_skipped st (dxftype e)" by simp
  then show ?thesis by simp
next
  case False
  then have "outcome st (try_body tr e props st)"
    by (simp add: try_body_def branch_outcomes split: if_split_asm)
  with assms show ?thesis by (simp add: outcome_features)
qed

lemma process_entity_features:
  "features (process_entity tr st e) = features st
   \<or> (\<exists>f. features (process_entity tr st e) = features st @ [f] \<and> feature_ok f)"
proof (cases "try_body tr e (entity_props e) st")
  case None
  then show ?thesis by (simp add: process_entity_def)
next
  case (Some st')
  with try_body_features [OF Some] show ?thesis by (simp add: process_entity_def)
qed

lemma foldl_features_ok:
  "\<forall>f\<in>set (features st). feature_ok f \<Longrightarrow>
   \<forall>f\<in>set (features (foldl (process_entity tr) st es)). feature_ok f"
proof (induction es arbitrary: st)
  case Nil
  then show ?case by simp
next
  case (Cons e es)
  have "\<forall>f\<in>set (features (process_entity tr st e)). feature_ok f"
    using process_entity_features [of tr st e] Cons.prems by auto
  then show ?case using Cons.IH by simp
qed

text \<open>
  A lower bound that holds for every feature of every conversion: a LineString has at
  least 2 coordinates, and a Polygon has exactly one ring, of at least 3 coordinates.
\<close>

lemma emitted_sizes_lower_bound:
  "\<forall>f\<in>set (features (convert_dxf tr msp)). linestring_min 2 f \<and> polygon_ring_min 3 f"
  using foldl_features_ok [of no_results tr msp]
  by (simp add: convert_dxf_def feature_ok_def no_results_def)

text \<open>
  C2. Every LineString feature emitted by a conversion has at least 2 coordinates and every
  Polygon ring emitted has at least 4 coordinates; a degenerate ring is never emitted, the
  entity is filtered instead. The source breaks this on a closed polyline that keeps
  exactly two plausible vertices \<open>a\<close> and \<open>b\<close>: both polyline branches share the guard
  \<^verbatim>\<open>len(points) < 2\<close>, which fits a line string, and the closed case then appends the
  first coordinate, so the conversion emits the Polygon with the ring \<open>[a, b, a]\<close> of 3
  coordinates and counts nothing as filtered. The conversion of such a polyline,
  evaluated:
\<close>

theorem closed_pair_emits_short_ring:
  "convert_dxf demo_transformer [closed_pair] =
     \<lparr>features =
        [make_feature ''Polygon''
           (Rings [[reproject demo_transformer 300000 3600000,
                    reproject demo_transformer 300100 3600100,
                    reproject demo_transformer 300000 3600000]])
           [(''layer'', ''0''), (''type'', ''LWPOLYLINE'')]],
      skipped = Map.empty, filtered = 0\<rparr>"
  by (simp add: convert_dxf_def process_entity_def try_body_def entity_props_def
      entity_color_def dxf_get_def append_feature_def closed_pair_def
      branch_LWPOLYLINE_def polyline_tail_def example_defs)

subsection \<open>Implausible points\<close>



lemma polyline_tail_emits:
  assumes "2 \<le> length (filter plausible ps)"
  shows "polyline_tail tr ps (Some c) props st =
     Some (append_feature st
        (let coords = map (\<lambda>(x, y). reproject tr x y) (filter plausible ps)
         in if c then make_feature ''Polygon'' (Rings [coords @ [hd coords]]) props
            else make_feature ''LineString'' (Positions coords) props))"
proof -
  obtain p q rest where "filter plausible ps = p # q # rest"
    using assms by (cases "filter plausible ps"; cases "tl (filter plausible ps)") auto
  then show ?thesis
    by (simp add: polyline_tail_def plausible_fun Let_def)
qed

text \<open>
  The ring of a closed polyline is closed by construction: the branch appends the first
  coordinate. It has one coordinate more than the polyline has plausible vertices.
\<close>

lemma closed_polyline_ring:
  assumes "2 \<le> length (filter plausible ps)"
  shows "let coords = map (\<lambda>(x, y). reproject tr x y) (filter plausible ps);
             ring = coords @ [hd coords]
         in polyline_tail tr ps (Some True) props st =
              Some (append_feature st (make_feature ''Polygon'' (Rings [ring]) props))
            \<and> hd ring = last ring
            \<and> length ring = length (filter plausible ps) + 1"
proof -
  obtain p rest where "filter plausible ps = p # rest"
    using assms by (cases "filter plausible ps") auto
  then show ?thesis
    using assms by (simp add: polyline_tail_emits Let_def)
qed


lemma polyline_short_try_body:
  assumes "polyline_points e = Some ps" and "length ps < 2"
  shows "try_body tr e props st = Some st"
proof -
  consider "dxftype e = ''LWPOLYLINE''" | "dxftype e = ''POLYLINE''"
    using assms(1) by (auto simp: polyline_points_def split: if_split_asm)
  then show ?thesis
  proof cases
    case 1
    with assms show ?thesis
      by (auto simp: try_body_kind polyline_points_def branch_LWPOLYLINE_def
          split: Option.bind_split_asm)
  next
    case 2
    with assms show ?thesis
      by (auto simp: try_body_kind polyline_points_def branch_POLYLINE_def
          split: Option.bind_split_asm)
  qed
qed








subsection \<open>Polylines of fewer than two vertices\<close>

text \<open>
  C9. A polyline entity (LWPOLYLINE or POLYLINE) with fewer than 2 vertices, counted
  before any plausibility filtering, leaves the loop's values as they were: no feature,
  \<open>filtered\<close> and \<open>skipped\<close> unchanged.
\<close>

theorem short_polyline_leaves_no_trace:
  assumes "polyline_points e = Some ps" and "length ps < 2"
  shows "process_entity tr st e = st"
  using assms by (simp add: polyline_short_try_body process_entity_Some)

lemma points_lw_single: "polyline_points lw_single = Some [(300000, 3600000)]"
  by (simp add: polyline_points_def lw_single_def bare_def to_wcs_def)

theorem short_polyline_leaves_no_trace_witness:
  "polyline_points lw_single = Some [(300000, 3600000)]
   \<and> process_entity demo_transformer no_results lw_single = no_results"
  using short_polyline_leaves_no_trace [OF points_lw_single, of demo_transformer no_results]
  by (simp add: points_lw_single)

subsection \<open>Errors\<close>

lemma unreadable_points_raise:
  assumes "dxftype e \<in> {''LINE'', ''CIRCLE'', ''ARC'', ''POINT'', ''TEXT'', ''MTEXT'', ''INSERT''}"
    and "defining_points e = None"
  shows "try_body tr e props st = None"
proof -
  consider "dxftype e = ''LINE''" | "dxftype e = ''CIRCLE''" | "dxftype e = ''ARC''"
    | "dxftype e = ''POINT''" | "dxftype e = ''TEXT''" | "dxftype e = ''MTEXT''"
    | "dxftype e = ''INSERT''"
    using assms(1) by auto
  then show ?thesis
  proof cases
    case 1
    with assms(2) show ?thesis
      by (auto simp: try_body_kind defining_points_def branch_LINE_def
          split: Option.bind_split_asm)
  next
    case 2
    with assms(2) show ?thesis
      by (auto simp: try_body_kind defining_points_def branch_CIRCLE_def
          split: Option.bind_split_asm)
  next
    case 3
    with assms(2) show ?thesis
      by (auto simp: try_body_kind defining_points_def branch_ARC_def
          split: Option.bind_split_asm)
  next
    case 4
    with assms(2) show ?thesis
      by (auto simp: try_body_kind defining_points_def branch_POINT_def
          split: Option.bind_split_asm)
  next
    case 5
    with assms(2) show ?thesis
      by (auto simp: try_body_kind defining_points_def branch_TEXT_def
          split: Option.bind_split_asm)
  next
    case 6
    with assms(2) show ?thesis
      by (auto simp: try_body_kind defining_points_def branch_MTEXT_def
          split: Option.bind_split_asm)
  next
    case 7
    with assms(2) show ?thesis
      by (auto simp: try_body_kind defining_points_def branch_INSERT_def
          split: Option.bind_split_asm)
  qed
qed

lemma unreadable_vertices_raise:
  assumes "dxftype e \<in> {''LWPOLYLINE'', ''POLYLINE''}" and "polyline_points e = None"
  shows "try_body tr e props st = None"
proof -
  consider "dxftype e = ''LWPOLYLINE''" | "dxftype e = ''POLYLINE''"
    using assms(1) by auto
  then show ?thesis
  proof cases
    case 1
    with assms(2) show ?thesis
      by (auto simp: try_body_kind polyline_points_def branch_LWPOLYLINE_def
          split: Option.bind_split_asm)
  next
    case 2
    with assms(2) show ?thesis
      by (auto simp: try_body_kind polyline_points_def branch_POLYLINE_def
          split: Option.bind_split_asm)
  qed
qed

lemma dimension_never_raises:
  "dxftype e = ''DIMENSION'' \<Longrightarrow> try_body tr e props st \<noteq> None"
  by (simp add: try_body_kind branch_DIMENSION_def split: option.split)

lemma points_line_half: "defining_points line_half = None"
  by (simp add: defining_points_def line_half_def bare_def)

lemma kind_line_half: "dxftype line_half = ''LINE''"
  by (simp add: line_half_def bare_def)

text \<open>
  C3, as amended. An error that leaves an entity's branch is caught at that entity's
  boundary: it adds exactly one to \<open>skipped\<close> under the entity's kind, leaves \<open>features\<close>
  and \<open>filtered\<close> as they were, and the loop goes on with the next entity, so no entity
  aborts the batch. Such an error never comes from a DIMENSION, whose branch swallows its
  own errors without counting them. For every other supported kind, failing to read the
  defining points (the vertices, for a polyline) is such an error.
\<close>

theorem escaping_error_is_skipped:
  "(try_body tr e (entity_props e) st = None \<longrightarrow>
      process_entity tr st e =
        st\<lparr>skipped := (skipped st)(dxftype e \<mapsto>
              (case skipped st (dxftype e) of None \<Rightarrow> 0 | Some n \<Rightarrow> n) + 1)\<rparr>
      \<and> dxftype e \<noteq> ''DIMENSION'')
   \<and> (dxftype e \<in> {''LINE'', ''CIRCLE'', ''ARC'', ''POINT'', ''TEXT'', ''MTEXT'', ''INSERT''}
        \<and> defining_points e = None \<longrightarrow>
      try_body tr e (entity_props e) st = None)
   \<and> (dxftype e \<in> {''LWPOLYLINE'', ''POLYLINE''} \<and> polyline_points e = None \<longrightarrow>
      try_body tr e (entity_props e) st = None)
   \<and> convert_dxf tr (before @ e # after) =
       foldl (process_entity tr) (process_entity tr (convert_dxf tr before) e) after"
proof (intro conjI impI)
  assume h: "try_body tr e (entity_props e) st = None"
  then show "process_entity tr st e =
        st\<lparr>skipped := (skipped st)(dxftype e \<mapsto>
              (case skipped st (dxftype e) of None \<Rightarrow> 0 | Some n \<Rightarrow> n) + 1)\<rparr>"
    by (simp add: process_entity_None count_skipped_def)
  from h show "dxftype e \<noteq> ''DIMENSION''"
    using dimension_never_raises [of e tr "entity_props e" st] by blast
next
  assume "dxftype e \<in> {''LINE'', ''CIRCLE'', ''ARC'', ''POINT'', ''TEXT'', ''MTEXT'', ''INSERT''}
        \<and> defining_points e = None"
  then show "try_body tr e (entity_props e) st = None"
    using unreadable_points_raise [of e tr "entity_props e" st] by blast
next
  assume "dxftype e \<in> {''LWPOLYLINE'', ''POLYLINE''} \<and> polyline_points e = None"
  then show "try_body tr e (entity_props e) st = None"
    using unreadable_vertices_raise [of e tr "entity_props e" st] by blast
next
  show "convert_dxf tr (before @ e # after) =
       foldl (process_entity tr) (process_entity tr (convert_dxf tr before) e) after"
    by (rule convert_dxf_append)
qed

text \<open>
  A line without a readable end point is counted under \<open>LINE\<close>, and the line that follows
  it in the drawing is processed from there.
\<close>

theorem escaping_error_is_skipped_witness:
  "try_body demo_transformer line_half (entity_props line_half) no_results = None
   \<and> process_entity demo_transformer no_results line_half
       = no_results\<lparr>skipped := [''LINE'' \<mapsto> 1]\<rparr>
   \<and> convert_dxf demo_transformer [line_half, line_AB]
       = process_entity demo_transformer (no_results\<lparr>skipped := [''LINE'' \<mapsto> 1]\<rparr>) line_AB"
proof -
  note inst = escaping_error_is_skipped [where e = line_half and tr = demo_transformer
      and st = no_results and before = "[]" and after = "[line_AB]"]
  have r: "try_body demo_transformer line_half (entity_props line_half) no_results = None"
    using inst by (simp add: points_line_half kind_line_half)
  have p: "process_entity demo_transformer no_results line_half
       = no_results\<lparr>skipped := [''LINE'' \<mapsto> 1]\<rparr>"
    using inst r by (simp add: kind_line_half no_results_def)
  have "convert_dxf demo_transformer [] = no_results"
    by (simp add: convert_dxf_def)
  with inst p have "convert_dxf demo_transformer [line_half, line_AB]
       = process_entity demo_transformer (no_results\<lparr>skipped := [''LINE'' \<mapsto> 1]\<rparr>) line_AB"
    by simp
  with r p show ?thesis by simp
qed

text \<open>
  C3 as stated fails on a DIMENSION: reading the second definition point of this one
  raises inside the branch, and the entity is dropped while \<open>skipped\<close> stays empty.
\<close>

theorem swallowed_error_counterexample:
  "dimension_try demo_transformer dim_half (entity_props dim_half) no_results = None
   \<and> skipped (process_entity demo_transformer no_results dim_half) ''DIMENSION'' = None
   \<and> process_entity demo_transformer no_results dim_half = no_results"
  by (simp add: process_entity_def try_body_def branch_DIMENSION_def dimension_try_def
      dim_half_def bare_def no_results_def)

text \<open>
  C8. For a DIMENSION, a failure to read either of its two definition points drops the
  entity silently: the loop's values are exactly as before, so no feature is emitted and
  neither \<open>skipped\<close> nor \<open>filtered\<close> changes. For an entity of any other kind, an error
  that leaves its branch adds one to \<open>skipped\<close> under its kind (and changes nothing
  else).
\<close>

theorem dimension_failure_is_silent:
  "(dxftype e = ''DIMENSION'' \<and> (dxf_defpoint e = None \<or> dxf_defpoint2 e = None) \<longrightarrow>
      process_entity tr st e = st)
   \<and> (dxftype e \<noteq> ''DIMENSION'' \<and> try_body tr e (entity_props e) st = None \<longrightarrow>
      skipped (process_entity tr st e) (dxftype e) =
        Some ((case skipped st (dxftype e) of None \<Rightarrow> 0 | Some n \<Rightarrow> n) + 1)
      \<and> features (process_entity tr st e) = features st
      \<and> filtered (process_entity tr st e) = filtered st)"
proof (intro conjI impI)
  assume h: "dxftype e = ''DIMENSION'' \<and> (dxf_defpoint e = None \<or> dxf_defpoint2 e = None)"
  then have "dimension_try tr e (entity_props e) st = None"
    by (auto simp: dimension_try_def split: Option.bind_split)
  with h show "process_entity tr st e = st"
    by (simp add: process_entity_def try_body_kind branch_DIMENSION_def)
next
  assume h: "dxftype e \<noteq> ''DIMENSION'' \<and> try_body tr e (entity_props e) st = None"
  then have p: "process_entity tr st e = count_skipped st (dxftype e)"
    by (simp add: process_entity_None)
  show "skipped (process_entity tr st e) (dxftype e) =
        Some ((case skipped st (dxftype e) of None \<Rightarrow> 0 | Some n \<Rightarrow> n) + 1)"
    by (simp add: p count_skipped_def)
  show "features (process_entity tr st e) = features st" by (simp add: p)
  show "filtered (process_entity tr st e) = filtered st" by (simp add: p)
qed

text \<open>
  The dimension without a second definition point changes nothing; the line without an
  end point is counted under \<open>LINE\<close>.
\<close>

theorem dimension_failure_is_silent_witness:
  "process_entity demo_transformer no_results dim_half = no_results
   \<and> skipped (process_entity demo_transformer no_results line_half) ''LINE'' = Some 1"
proof -
  have a: "process_entity demo_transformer no_results dim_half = no_results"
    using dimension_failure_is_silent [where e = dim_half and tr = demo_transformer
        and st = no_results]
    by (simp add: dim_half_def bare_def)
  have "try_body demo_transformer line_half (entity_props line_half) no_results = None"
    by (simp add: try_body_def branch_LINE_def line_half_def bare_def)
  then have b: "skipped (process_entity demo_transformer no_results line_half) ''LINE'' = Some 1"
    using dimension_failure_is_silent [where e = line_half and tr = demo_transformer
        and st = no_results]
    by (simp add: kind_line_half no_results_def)
  from a b show ?thesis by simp
qed

subsection \<open>The guard of the ARC branch\<close>











end
